theory Spec2Isabelle
  imports Main "HOL-Library.Sublist" "HOL-Library.Char_ord" "HOL-Library.List_Lexorder"
begin

section \<open>The services settings page of the file manager\<close>

text \<open>
  A shallow embedding of \<^verbatim>\<open>src/settings/services/servicessettingspage.cpp\<close>.
  The page owns a list model of checkable rows, a sort/filter proxy over it that the list
  view shows, and a snapshot of the enabled version-control plugins. The plugin registries
  and the configuration stores are explicit arguments; the stores are returned updated.
\<close>

subsection \<open>Reserved keys\<close>

definition ShowDeleteDefault :: bool where
  "ShowDeleteDefault = False"

definition VersionControlServicePrefix :: string where
  "VersionControlServicePrefix = ''_version_control_''"

definition DeleteService :: string where
  "DeleteService = ''_delete''"

definition CopyToMoveToService :: string where
  "CopyToMoveToService = ''_copy_to_move_to''"

subsection \<open>Rows of the service model\<close>

text \<open>
  Modelled from the spec: the class \<^verbatim>\<open>ServiceModel\<close> (settings/servicemodel.h) is
  not among the sources. A row holds the four fields of the spec's ServiceRow, named after
  the item roles the page reads and writes: icon (decoration), label (display), key
  (desktop entry name) and the check state. \<^verbatim>\<open>insertRow(0)\<close> puts a new row in front,
  \<^verbatim>\<open>clear()\<close> empties the list.
\<close>

record row =
  decorationRole :: string
  displayRole :: string
  desktopEntryNameRole :: string
  checkStateRole :: bool

subsection \<open>What plugin discovery returns\<close>

record serviceAction =
  action_name :: string
  action_text :: string
  action_icon :: string
  action_noDisplay :: bool
  action_isSeparator :: bool

text \<open>A \<^verbatim>\<open>KonqPopupMenu/Plugin\<close> service: the \<^verbatim>\<open>X-KDE-Submenu\<close> entry of its
  desktop file (empty when absent) and its user-defined actions.\<close>

record menuPlugin =
  subMenuName :: string
  userDefinedServices :: "serviceAction list"

record kservice =
  service_icon :: string
  service_name :: string
  service_desktopEntryName :: string

record pluginMetaData =
  meta_pluginId :: string
  meta_name :: string
  meta_iconName :: string
  meta_serviceTypes :: "string list"

text \<open>The five enumerations the page asks for, in the order it asks:
  \<^verbatim>\<open>query("KonqPopupMenu/Plugin")\<close>, \<^verbatim>\<open>query("KFileItemAction/Plugin")\<close>,
  the plugins under \<^verbatim>\<open>kf5/kfileitemaction\<close> (before the page's own filter),
  the plugins under \<^verbatim>\<open>dolphin/vcs\<close>, and
  \<^verbatim>\<open>query("FileViewVersionControlPlugin")\<close>.\<close>

record registry =
  konqPopupMenuPlugins :: "menuPlugin list"
  fileItemActionServices :: "kservice list"
  kfileitemactionPlugins :: "pluginMetaData list"
  vcsPlugins :: "pluginMetaData list"
  versionControlServices :: "kservice list"

subsection \<open>The configuration stores\<close>

text \<open>The group \<^verbatim>\<open>Show\<close> of kservicemenurc, the entry \<^verbatim>\<open>ShowDeleteCommand\<close> of
  group \<^verbatim>\<open>KDE\<close> in kdeglobals (absent or a boolean), the general setting
  \<^verbatim>\<open>ShowCopyMoveMenu\<close> and the version-control setting \<^verbatim>\<open>enabledPlugins\<close>.\<close>

record config =
  showGroup :: "string \<rightharpoonup> bool"
  showDeleteCommand :: "bool option"
  showCopyMoveMenu :: bool
  enabledPlugins :: "string list"

definition readEntry :: "(string \<rightharpoonup> bool) \<Rightarrow> string \<Rightarrow> bool \<Rightarrow> bool" where
  "readEntry g k dflt = (case g k of None \<Rightarrow> dflt | Some b \<Rightarrow> b)"

subsection \<open>The page\<close>

text \<open>
  \<^verbatim>\<open>m_serviceModel\<close> is the source model, newest row first. The two
  \<^verbatim>\<open>sortModel\<close> fields are the state of \<^verbatim>\<open>m_sortModel\<close>, the proxy the list view
  shows: the fixed string the search line sets as its filter, and whether
  \<^verbatim>\<open>sort\<close> has been called on it.
\<close>

record panel =
  m_initialized :: bool
  m_serviceModel :: "row list"
  sortModel_filter :: string
  sortModel_sorted :: bool
  m_enabledVcsPlugins :: "string list"

text \<open>The constructor: nothing is loaded; the enabled version-control plugins are read and
  sorted with \<^verbatim>\<open>std::sort\<close>, that is by code units.\<close>

definition ServicesSettingsPage :: "config \<Rightarrow> panel" where
  "ServicesSettingsPage conf =
     \<lparr>m_initialized = False, m_serviceModel = [], sortModel_filter = [],
      sortModel_sorted = False, m_enabledVcsPlugins = sort (enabledPlugins conf)\<rparr>"

text \<open>The search line's \<^verbatim>\<open>textChanged\<close> handler.\<close>

definition textChanged :: "string \<Rightarrow> panel \<Rightarrow> panel" where
  "textChanged pat p = p\<lparr>sortModel_filter := pat\<rparr>"

definition addRow :: "string \<Rightarrow> string \<Rightarrow> string \<Rightarrow> bool \<Rightarrow> row list \<Rightarrow> row list" where
  "addRow icon txt val checked rows =
     \<lparr>decorationRole = icon, displayRole = txt, desktopEntryNameRole = val,
      checkStateRole = checked\<rparr> # rows"

fun isInServicesList :: "row list \<Rightarrow> string \<Rightarrow> bool" where
  "isInServicesList [] service = False"
| "isInServicesList (r # rows) service =
     (if desktopEntryNameRole r = service then True else isInServicesList rows service)"

subsection \<open>Loading the generic services\<close>

fun loadActions :: "(string \<rightharpoonup> bool) \<Rightarrow> string \<Rightarrow> serviceAction list \<Rightarrow> row list \<Rightarrow> row list" where
  "loadActions grp sub [] rows = rows"
| "loadActions grp sub (a # acts) rows =
     (let serviceName = action_name a;
          addService = (\<not> action_noDisplay a \<and> \<not> action_isSeparator a
                        \<and> \<not> isInServicesList rows serviceName)
      in loadActions grp sub acts
           (if addService
            then addRow (action_icon a)
                   (if sub = [] then action_text a else sub @ '': '' @ action_text a)
                   serviceName (readEntry grp serviceName True) rows
            else rows))"

fun loadMenuPlugins :: "(string \<rightharpoonup> bool) \<Rightarrow> menuPlugin list \<Rightarrow> row list \<Rightarrow> row list" where
  "loadMenuPlugins grp [] rows = rows"
| "loadMenuPlugins grp (s # entries) rows =
     loadMenuPlugins grp entries (loadActions grp (subMenuName s) (userDefinedServices s) rows)"

fun loadPluginServices :: "(string \<rightharpoonup> bool) \<Rightarrow> kservice list \<Rightarrow> row list \<Rightarrow> row list" where
  "loadPluginServices grp [] rows = rows"
| "loadPluginServices grp (s # pluginServices) rows =
     (let desktopEntryName = service_desktopEntryName s
      in loadPluginServices grp pluginServices
           (if \<not> isInServicesList rows desktopEntryName
            then addRow (service_icon s) (service_name s) desktopEntryName
                   (readEntry grp desktopEntryName True) rows
            else rows))"

definition findFileItemActionPlugins :: "pluginMetaData list \<Rightarrow> pluginMetaData list" where
  "findFileItemActionPlugins ms =
     filter (\<lambda>metaData. ''KFileItemAction/Plugin'' \<in> set (meta_serviceTypes metaData)) ms"

fun loadJsonPlugins :: "(string \<rightharpoonup> bool) \<Rightarrow> pluginMetaData list \<Rightarrow> row list \<Rightarrow> row list" where
  "loadJsonPlugins grp [] rows = rows"
| "loadJsonPlugins grp (m # jsonPlugins) rows =
     (let desktopEntryName = meta_pluginId m
      in loadJsonPlugins grp jsonPlugins
           (if \<not> isInServicesList rows desktopEntryName
            then addRow (meta_iconName m) (meta_name m) desktopEntryName
                   (readEntry grp desktopEntryName True) rows
            else rows))"

definition loadServices :: "registry \<Rightarrow> config \<Rightarrow> panel \<Rightarrow> panel" where
  "loadServices reg conf p =
     (let grp = showGroup conf;
          rows1 = loadMenuPlugins grp (konqPopupMenuPlugins reg) (m_serviceModel p);
          rows2 = loadPluginServices grp (fileItemActionServices reg) rows1;
          rows3 = loadJsonPlugins grp (findFileItemActionPlugins (kfileitemactionPlugins reg)) rows2
      in p\<lparr>m_serviceModel := rows3, sortModel_sorted := True\<rparr>)"

subsection \<open>Loading the version-control plugins\<close>

fun loadVcsPlugins :: "string list \<Rightarrow> pluginMetaData list \<Rightarrow> row list \<times> string list
                        \<Rightarrow> row list \<times> string list" where
  "loadVcsPlugins enabled [] (rows, loadedPlugins) = (rows, loadedPlugins)"
| "loadVcsPlugins enabled (plugin # plugins) (rows, loadedPlugins) =
     (let pluginName = meta_name plugin
      in loadVcsPlugins enabled plugins
           (addRow ''code-class'' pluginName (VersionControlServicePrefix @ pluginName)
              (pluginName \<in> set enabled) rows,
            loadedPlugins @ [pluginName]))"

fun loadVcsServices :: "string list \<Rightarrow> string list \<Rightarrow> kservice list \<Rightarrow> row list \<Rightarrow> row list" where
  "loadVcsServices enabled loadedPlugins [] rows = rows"
| "loadVcsServices enabled loadedPlugins (plugin # pluginServices) rows =
     (let pluginName = service_name plugin
      in if pluginName \<in> set loadedPlugins
         then loadVcsServices enabled loadedPlugins pluginServices rows
         else loadVcsServices enabled loadedPlugins pluginServices
                (addRow ''code-class'' pluginName (VersionControlServicePrefix @ pluginName)
                   (pluginName \<in> set enabled) rows))"

definition loadVersionControlSystems :: "registry \<Rightarrow> config \<Rightarrow> panel \<Rightarrow> panel" where
  "loadVersionControlSystems reg conf p =
     (let enabled = enabledPlugins conf
      in case loadVcsPlugins enabled (vcsPlugins reg) (m_serviceModel p, []) of
           (rows1, loadedPlugins) \<Rightarrow>
             p\<lparr>m_serviceModel := loadVcsServices enabled loadedPlugins (versionControlServices reg) rows1,
               sortModel_sorted := True\<rparr>)"

subsection \<open>First display and reload\<close>

definition showEvent :: "registry \<Rightarrow> config \<Rightarrow> bool \<Rightarrow> panel \<Rightarrow> panel" where
  "showEvent reg conf spontaneous p =
     (if \<not> spontaneous \<and> \<not> m_initialized p then
        (let p1 = loadServices reg conf p;
             p2 = loadVersionControlSystems reg conf p1;
             rows3 = addRow ''edit-delete'' ''Delete'' DeleteService
                       (case showDeleteCommand conf of None \<Rightarrow> ShowDeleteDefault | Some b \<Rightarrow> b)
                       (m_serviceModel p2);
             rows4 = addRow ''edit-copy'' '''Copy To' and 'Move To' commands''
                       CopyToMoveToService (showCopyMoveMenu conf) rows3
         in p2\<lparr>m_serviceModel := rows4, sortModel_sorted := True, m_initialized := True\<rparr>)
      else p)"

text \<open>The handler of the download button's \<^verbatim>\<open>dialogFinished\<close> signal.\<close>

definition dialogFinished :: "registry \<Rightarrow> config \<Rightarrow> 'e list \<Rightarrow> panel \<Rightarrow> panel" where
  "dialogFinished reg conf changedEntries p =
     (if changedEntries \<noteq> [] then loadServices reg conf (p\<lparr>m_serviceModel := []\<rparr>) else p)"

subsection \<open>The proxy model the list view shows\<close>

text \<open>
  \<^verbatim>\<open>m_listView->model()\<close> is \<^verbatim>\<open>m_sortModel\<close>: the rows of the source model whose
  label contains the filter string, case-insensitively (the letters A to Z are folded,
  characters being bytes here), and, once \<^verbatim>\<open>sort\<close> has been called, in ascending
  order of the label under the locale's collation. An empty filter string lets every row
  through. The collation is a parameter: a function from a string to its sort key, keys
  being compared by code units. \<open>mapToSource\<close> lists, for each row of the proxy, the
  index of its source row; rows with equal sort keys are taken in their source order,
  and nothing below depends on the order among them.
\<close>

definition toLower :: "char \<Rightarrow> char" where
  "toLower c = (let n = (of_char c :: nat) in if 65 \<le> n \<and> n \<le> 90 then char_of (n + 32) else c)"

definition filterAcceptsRow :: "string \<Rightarrow> row \<Rightarrow> bool" where
  "filterAcceptsRow pat r = sublist (map toLower pat) (map toLower (displayRole r))"

definition mapToSource :: "(string \<Rightarrow> string) \<Rightarrow> panel \<Rightarrow> nat list" where
  "mapToSource collate p =
     (let rows = m_serviceModel p;
          accepted = filter (\<lambda>i. filterAcceptsRow (sortModel_filter p) (rows ! i)) [0..<length rows]
      in if sortModel_sorted p
         then sort_key (\<lambda>i. collate (displayRole (rows ! i))) accepted
         else accepted)"

definition proxyRows :: "(string \<Rightarrow> string) \<Rightarrow> panel \<Rightarrow> row list" where
  "proxyRows collate p = map (\<lambda>i. m_serviceModel p ! i) (mapToSource collate p)"

subsection \<open>Apply and restore defaults\<close>

definition applyRow :: "row \<Rightarrow> config \<times> string list \<Rightarrow> config \<times> string list" where
  "applyRow r s =
     (case s of (conf, enabled) \<Rightarrow>
        (let service = desktopEntryNameRole r; checked = checkStateRole r
         in if prefix VersionControlServicePrefix service then
              (if checked then (conf, enabled @ [displayRole r]) else (conf, enabled))
            else if service = DeleteService then
              (conf\<lparr>showDeleteCommand := Some checked\<rparr>, enabled)
            else if service = CopyToMoveToService then
              (conf\<lparr>showCopyMoveMenu := checked\<rparr>, enabled)
            else (conf\<lparr>showGroup := (showGroup conf)(service \<mapsto> checked)\<rparr>, enabled)))"

fun applyRows :: "row list \<Rightarrow> config \<times> string list \<Rightarrow> config \<times> string list" where
  "applyRows [] s = s"
| "applyRows (r # rows) s = applyRows rows (applyRow r s)"

text \<open>The result of \<^verbatim>\<open>applySettings\<close>: the page, the stores, and the calls of
  \<^verbatim>\<open>KMessageBox::information\<close> as pairs of the message and the name under which
  the user may suppress it.\<close>

definition applySettings :: "(string \<Rightarrow> string) \<Rightarrow> panel \<Rightarrow> config
                             \<Rightarrow> panel \<times> config \<times> (string \<times> string) list" where
  "applySettings collate p conf =
     (if \<not> m_initialized p then (p, conf, [])
      else case applyRows (proxyRows collate p) (conf, []) of
        (conf', enabled) \<Rightarrow>
          if m_enabledVcsPlugins p \<noteq> enabled
          then (p, conf'\<lparr>enabledPlugins := enabled\<rparr>,
                [(''Dolphin must be restarted to apply the updated version control systems settings.'',
                  ''ShowVcsRestartInformation'')])
          else (p, conf', []))"

fun restoreRows :: "nat list \<Rightarrow> row list \<Rightarrow> row list" where
  "restoreRows [] rows = rows"
| "restoreRows (i # idx) rows =
     (let service = desktopEntryNameRole (rows ! i);
          checked = (\<not> prefix VersionControlServicePrefix service
                     \<and> service \<noteq> DeleteService
                     \<and> service \<noteq> CopyToMoveToService)
      in restoreRows idx (rows[i := (rows ! i)\<lparr>checkStateRole := checked\<rparr>]))"

definition restoreDefaults :: "(string \<Rightarrow> string) \<Rightarrow> panel \<Rightarrow> panel" where
  "restoreDefaults collate p =
     p\<lparr>m_serviceModel := restoreRows (mapToSource collate p) (m_serviceModel p)\<rparr>"

section \<open>Notions used to state the properties\<close>

text \<open>The rows the three generic sources offer, in the order \<^verbatim>\<open>loadServices\<close> visits
  them: the shown actions of every menu plugin, then the plugin services, then the
  JSON plugins of the right service type.\<close>

definition actionRow :: "(string \<rightharpoonup> bool) \<Rightarrow> string \<Rightarrow> serviceAction \<Rightarrow> row" where
  "actionRow grp sub a =
     \<lparr>decorationRole = action_icon a,
      displayRole = (if sub = [] then action_text a else sub @ '': '' @ action_text a),
      desktopEntryNameRole = action_name a,
      checkStateRole = (case grp (action_name a) of None \<Rightarrow> True | Some b \<Rightarrow> b)\<rparr>"

definition serviceRow :: "(string \<rightharpoonup> bool) \<Rightarrow> kservice \<Rightarrow> row" where
  "serviceRow grp s =
     \<lparr>decorationRole = service_icon s, displayRole = service_name s,
      desktopEntryNameRole = service_desktopEntryName s,
      checkStateRole = (case grp (service_desktopEntryName s) of None \<Rightarrow> True | Some b \<Rightarrow> b)\<rparr>"

definition jsonRow :: "(string \<rightharpoonup> bool) \<Rightarrow> pluginMetaData \<Rightarrow> row" where
  "jsonRow grp m =
     \<lparr>decorationRole = meta_iconName m, displayRole = meta_name m,
      desktopEntryNameRole = meta_pluginId m,
      checkStateRole = (case grp (meta_pluginId m) of None \<Rightarrow> True | Some b \<Rightarrow> b)\<rparr>"

definition shownActions :: "serviceAction list \<Rightarrow> serviceAction list" where
  "shownActions acts = filter (\<lambda>a. \<not> action_noDisplay a \<and> \<not> action_isSeparator a) acts"

definition genericCandidates :: "registry \<Rightarrow> config \<Rightarrow> row list" where
  "genericCandidates reg conf =
     concat (map (\<lambda>s. map (actionRow (showGroup conf) (subMenuName s))
                         (shownActions (userDefinedServices s)))
               (konqPopupMenuPlugins reg))
     @ map (serviceRow (showGroup conf)) (fileItemActionServices reg)
     @ map (jsonRow (showGroup conf))
         (filter (\<lambda>m. ''KFileItemAction/Plugin'' \<in> set (meta_serviceTypes m))
            (kfileitemactionPlugins reg))"

text \<open>Adding candidates one by one, a candidate whose key is present being skipped.\<close>

fun mergeFirstSeen :: "row list \<Rightarrow> row list \<Rightarrow> row list" where
  "mergeFirstSeen rows [] = rows"
| "mergeFirstSeen rows (c # cs) =
     mergeFirstSeen
       (if desktopEntryNameRole c \<in> desktopEntryNameRole ` set rows then rows else c # rows) cs"

text \<open>The row of a version-control plugin, and the names that get a row: all names of the
  first source, then the names of the second source that the first one does not have.\<close>

definition vcsRow :: "string list \<Rightarrow> string \<Rightarrow> row" where
  "vcsRow enabled n =
     \<lparr>decorationRole = ''code-class'', displayRole = n,
      desktopEntryNameRole = VersionControlServicePrefix @ n,
      checkStateRole = (n \<in> set enabled)\<rparr>"

definition vcsNames :: "registry \<Rightarrow> string list" where
  "vcsNames reg =
     map meta_name (vcsPlugins reg)
     @ filter (\<lambda>n. n \<notin> set (map meta_name (vcsPlugins reg)))
         (map service_name (versionControlServices reg))"

text \<open>A key that \<^verbatim>\<open>applySettings\<close> and \<^verbatim>\<open>restoreDefaults\<close> do not treat as a
  generic service.\<close>

definition reservedKey :: "string \<Rightarrow> bool" where
  "reservedKey k \<longleftrightarrow>
     prefix VersionControlServicePrefix k \<or> k = DeleteService \<or> k = CopyToMoveToService"

text \<open>The labels of the checked version-control rows of a list of rows, in its order.\<close>

definition enabledVcsLabels :: "row list \<Rightarrow> string list" where
  "enabledVcsLabels rows =
     map displayRole
       (filter (\<lambda>r. prefix VersionControlServicePrefix (desktopEntryNameRole r) \<and> checkStateRole r)
          rows)"

text \<open>A collation that ignores the case of letters, as the collations of natural-language
  locales do at their first level; the identity is the collation by code units.\<close>

definition caselessKey :: "string \<Rightarrow> string" where
  "caselessKey s = map toLower s"

section \<open>Sample installations\<close>

text \<open>One menu plugin with a shown and a hidden action, a plugin service that reuses the
  desktop entry name of the shown action, and the version-control plugin Git, known to
  both version-control sources and enabled in the settings.\<close>

definition sampleRegistry :: registry where
  "sampleRegistry =
     \<lparr>konqPopupMenuPlugins =
        [\<lparr>subMenuName = ''Tools'',
          userDefinedServices =
            [\<lparr>action_name = ''svc.foo'', action_text = ''Foo'', action_icon = ''foo'',
              action_noDisplay = False, action_isSeparator = False\<rparr>,
             \<lparr>action_name = ''svc.hidden'', action_text = ''Hidden'', action_icon = '''',
              action_noDisplay = True, action_isSeparator = False\<rparr>]\<rparr>],
      fileItemActionServices =
        [\<lparr>service_icon = ''bar'', service_name = ''Foo plugin'',
          service_desktopEntryName = ''svc.foo''\<rparr>],
      kfileitemactionPlugins = [],
      vcsPlugins =
        [\<lparr>meta_pluginId = ''fileviewgitplugin'', meta_name = ''Git'', meta_iconName = '''',
          meta_serviceTypes = []\<rparr>],
      versionControlServices =
        [\<lparr>service_icon = '''', service_name = ''Git'',
          service_desktopEntryName = ''fileviewgitplugin''\<rparr>]\<rparr>"

definition sampleConfig :: config where
  "sampleConfig =
     \<lparr>showGroup = Map.empty, showDeleteCommand = None, showCopyMoveMenu = True,
      enabledPlugins = [''Git'']\<rparr>"

definition samplePanel :: panel where
  "samplePanel = showEvent sampleRegistry sampleConfig False (ServicesSettingsPage sampleConfig)"

text \<open>Two version-control plugins whose names differ in the case of the first letter, both
  enabled.\<close>

definition mixedCaseRegistry :: registry where
  "mixedCaseRegistry =
     \<lparr>konqPopupMenuPlugins = [], fileItemActionServices = [], kfileitemactionPlugins = [],
      vcsPlugins =
        [\<lparr>meta_pluginId = ''fileviewgitplugin'', meta_name = ''Git'', meta_iconName = '''',
          meta_serviceTypes = []\<rparr>,
         \<lparr>meta_pluginId = ''fileviewbazaarplugin'', meta_name = ''bzr'', meta_iconName = '''',
          meta_serviceTypes = []\<rparr>],
      versionControlServices = []\<rparr>"

definition mixedCaseConfig :: config where
  "mixedCaseConfig =
     \<lparr>showGroup = Map.empty, showDeleteCommand = None, showCopyMoveMenu = True,
      enabledPlugins = [''Git'', ''bzr'']\<rparr>"

definition mixedCasePanel :: panel where
  "mixedCasePanel =
     showEvent mixedCaseRegistry mixedCaseConfig False (ServicesSettingsPage mixedCaseConfig)"

text \<open>Two plugins of one name in the first version-control source.\<close>

definition sameNameRegistry :: registry where
  "sameNameRegistry =
     \<lparr>konqPopupMenuPlugins = [], fileItemActionServices = [], kfileitemactionPlugins = [],
      vcsPlugins =
        [\<lparr>meta_pluginId = ''gitplugin1'', meta_name = ''Git'', meta_iconName = '''',
          meta_serviceTypes = []\<rparr>,
         \<lparr>meta_pluginId = ''gitplugin2'', meta_name = ''Git'', meta_iconName = '''',
          meta_serviceTypes = []\<rparr>],
      versionControlServices = []\<rparr>"

section \<open>Loading the generic services\<close>

lemma isInServicesList_iff:
  "isInServicesList rows k \<longleftrightarrow> k \<in> desktopEntryNameRole ` set rows"
  by (induction rows) auto

lemma mergeFirstSeen_append:
  "mergeFirstSeen rows (cs @ ds) = mergeFirstSeen (mergeFirstSeen rows cs) ds"
  by (induction cs arbitrary: rows) simp_all

lemma loadActions_merge:
  "loadActions grp sub acts rows = mergeFirstSeen rows (map (actionRow grp sub) (shownActions acts))"
proof (induction acts arbitrary: rows)
  case Nil
  show ?case by (simp add: shownActions_def)
next
  case (Cons a acts)
  have key: "desktopEntryNameRole (actionRow grp sub a) = action_name a"
    by (simp add: actionRow_def)
  have new: "addRow (action_icon a)
               (if sub = [] then action_text a else sub @ '': '' @ action_text a)
               (action_name a) (readEntry grp (action_name a) True) rows
             = actionRow grp sub a # rows"
    by (simp add: addRow_def actionRow_def readEntry_def)
  show ?case
    using Cons.IH unfolding shownActions_def
    by (simp add: Let_def isInServicesList_iff key new)
qed

lemma loadMenuPlugins_merge:
  "loadMenuPlugins grp entries rows =
     mergeFirstSeen rows
       (concat (map (\<lambda>s. map (actionRow grp (subMenuName s)) (shownActions (userDefinedServices s)))
                  entries))"
  by (induction entries arbitrary: rows) (simp_all add: loadActions_merge mergeFirstSeen_append)

lemma loadPluginServices_merge:
  "loadPluginServices grp ss rows = mergeFirstSeen rows (map (serviceRow grp) ss)"
proof (induction ss arbitrary: rows)
  case Nil
  show ?case by simp
next
  case (Cons s ss)
  have new: "addRow (service_icon s) (service_name s) (service_desktopEntryName s)
               (readEntry grp (service_desktopEntryName s) True) rows = serviceRow grp s # rows"
    by (simp add: addRow_def serviceRow_def readEntry_def)
  have key: "desktopEntryNameRole (serviceRow grp s) = service_desktopEntryName s"
    by (simp add: serviceRow_def)
  show ?case
    using Cons.IH by (simp add: Let_def isInServicesList_iff key new)
qed

lemma loadJsonPlugins_merge:
  "loadJsonPlugins grp ms rows = mergeFirstSeen rows (map (jsonRow grp) ms)"
proof (induction ms arbitrary: rows)
  case Nil
  show ?case by simp
next
  case (Cons m ms)
  have new: "addRow (meta_iconName m) (meta_name m) (meta_pluginId m)
               (readEntry grp (meta_pluginId m) True) rows = jsonRow grp m # rows"
    by (simp add: addRow_def jsonRow_def readEntry_def)
  have key: "desktopEntryNameRole (jsonRow grp m) = meta_pluginId m"
    by (simp add: jsonRow_def)
  show ?case
    using Cons.IH by (simp add: Let_def isInServicesList_iff key new)
qed

lemma loadServices_merge:
  "m_serviceModel (loadServices reg conf p) =
     mergeFirstSeen (m_serviceModel p) (genericCandidates reg conf)"
  by (simp add: loadServices_def Let_def genericCandidates_def findFileItemActionPlugins_def
      loadMenuPlugins_merge loadPluginServices_merge loadJsonPlugins_merge mergeFirstSeen_append)

lemma mergeFirstSeen_filter_key:
  "filter (\<lambda>r. desktopEntryNameRole r = k) (mergeFirstSeen rows cs) =
     (if k \<in> desktopEntryNameRole ` set rows
      then filter (\<lambda>r. desktopEntryNameRole r = k) rows
      else case find (\<lambda>c. desktopEntryNameRole c = k) cs of None \<Rightarrow> [] | Some c \<Rightarrow> [c])"
proof (induction cs arbitrary: rows)
  case Nil
  have "filter (\<lambda>r. desktopEntryNameRole r = k) rows = []"
    if "k \<notin> desktopEntryNameRole ` set rows"
    using that by (auto simp: filter_empty_conv)
  then show ?case by simp
next
  case (Cons c cs)
  have none: "filter (\<lambda>r. desktopEntryNameRole r = k) rows = []"
    if "k \<notin> desktopEntryNameRole ` set rows"
    using that by (auto simp: filter_empty_conv)
  show ?case
  proof (cases "desktopEntryNameRole c \<in> desktopEntryNameRole ` set rows")
    case True
    then show ?thesis using Cons.IH [of rows] by auto
  next
    case False
    then show ?thesis using Cons.IH [of "c # rows"] none by auto
  qed
qed

lemma mergeFirstSeen_distinct:
  "distinct (map desktopEntryNameRole rows) \<Longrightarrow>
   distinct (map desktopEntryNameRole (mergeFirstSeen rows cs))"
  by (induction cs arbitrary: rows) auto

lemma mergeFirstSeen_keys:
  "desktopEntryNameRole ` set (mergeFirstSeen rows cs) =
     desktopEntryNameRole ` set rows \<union> desktopEntryNameRole ` set cs"
  by (induction cs arbitrary: rows) auto

lemma mergeFirstSeen_suffix: "suffix rows (mergeFirstSeen rows cs)"
proof (induction cs arbitrary: rows)
  case Nil
  show ?case by simp
next
  case (Cons c cs)
  show ?case
  proof (cases "desktopEntryNameRole c \<in> desktopEntryNameRole ` set rows")
    case True
    then show ?thesis using Cons.IH [of rows] by simp
  next
    case False
    have "suffix rows (c # rows)" by (simp add: suffix_Cons)
    then show ?thesis using False Cons.IH [of "c # rows"] suffix_order.trans by fastforce
  qed
qed

text \<open>
  Claim C7. \<^verbatim>\<open>loadServices\<close> keeps the rows it finds and puts new rows in front of
  them. For any key \<open>k\<close>: when a row with key \<open>k\<close> is already there, the rows with that
  key stay as they are and no candidate is added; otherwise the rows with key \<open>k\<close> are
  exactly the first candidate with that key, if there is one, in the order menu-plugin
  actions, plugin services, JSON plugins. The candidates leave out the actions marked
  as hidden or as separators; the label of an action is \<open>submenu: text\<close> when the
  submenu name is not empty and the text alone otherwise; the check state is the stored
  value of the key in the show group, and true when there is none.
\<close>

theorem loadServices_first_seen:
  "suffix (m_serviceModel p) (m_serviceModel (loadServices reg conf p))
   \<and> filter (\<lambda>r. desktopEntryNameRole r = k) (m_serviceModel (loadServices reg conf p)) =
       (if isInServicesList (m_serviceModel p) k
        then filter (\<lambda>r. desktopEntryNameRole r = k) (m_serviceModel p)
        else case find (\<lambda>c. desktopEntryNameRole c = k) (genericCandidates reg conf) of
               None \<Rightarrow> [] | Some c \<Rightarrow> [c])"
  by (simp only: loadServices_merge mergeFirstSeen_filter_key isInServicesList_iff
      mergeFirstSeen_suffix simp_thms)

text \<open>In the sample installation the key \<open>svc.foo\<close> is offered by a menu action and by a
  plugin service; the one row it gets is the action's. The hidden action gets none.\<close>

theorem loadServices_first_seen_witness:
  "filter (\<lambda>r. desktopEntryNameRole r = ''svc.foo'')
     (m_serviceModel (loadServices sampleRegistry sampleConfig (ServicesSettingsPage sampleConfig))) =
     [\<lparr>decorationRole = ''foo'', displayRole = ''Tools: Foo'',
       desktopEntryNameRole = ''svc.foo'', checkStateRole = True\<rparr>]
   \<and> filter (\<lambda>r. desktopEntryNameRole r = ''svc.hidden'')
     (m_serviceModel (loadServices sampleRegistry sampleConfig (ServicesSettingsPage sampleConfig))) =
     []"
proof -
  let ?p = "ServicesSettingsPage sampleConfig"
  have foo: "(if isInServicesList (m_serviceModel ?p) ''svc.foo''
        then filter (\<lambda>r. desktopEntryNameRole r = ''svc.foo'') (m_serviceModel ?p)
        else case find (\<lambda>c. desktopEntryNameRole c = ''svc.foo'')
                    (genericCandidates sampleRegistry sampleConfig) of
               None \<Rightarrow> [] | Some c \<Rightarrow> [c]) =
     [\<lparr>decorationRole = ''foo'', displayRole = ''Tools: Foo'',
       desktopEntryNameRole = ''svc.foo'', checkStateRole = True\<rparr>]"
    by code_simp
  have hidden: "(if isInServicesList (m_serviceModel ?p) ''svc.hidden''
        then filter (\<lambda>r. desktopEntryNameRole r = ''svc.hidden'') (m_serviceModel ?p)
        else case find (\<lambda>c. desktopEntryNameRole c = ''svc.hidden'')
                    (genericCandidates sampleRegistry sampleConfig) of
               None \<Rightarrow> [] | Some c \<Rightarrow> [c]) = []"
    by code_simp
  show ?thesis
    using loadServices_first_seen [of ?p sampleRegistry sampleConfig "''svc.foo''"]
      loadServices_first_seen [of ?p sampleRegistry sampleConfig "''svc.hidden''"]
    unfolding foo hidden by blast
qed

section \<open>Loading the version-control plugins\<close>

lemma loadVcsPlugins_rows:
  "loadVcsPlugins enabled pls (rows, loaded) =
     (rev (map (vcsRow enabled) (map meta_name pls)) @ rows, loaded @ map meta_name pls)"
  by (induction pls arbitrary: rows loaded) (simp_all add: Let_def addRow_def vcsRow_def)

lemma loadVcsServices_rows:
  "loadVcsServices enabled loaded ss rows =
     rev (map (vcsRow enabled) (filter (\<lambda>n. n \<notin> set loaded) (map service_name ss))) @ rows"
  by (induction ss arbitrary: rows) (simp_all add: Let_def addRow_def vcsRow_def)

lemma loadVersionControlSystems_model:
  "m_serviceModel (loadVersionControlSystems reg conf p) =
     rev (map (vcsRow (enabledPlugins conf)) (vcsNames reg)) @ m_serviceModel p"
  by (simp add: loadVersionControlSystems_def Let_def loadVcsPlugins_rows loadVcsServices_rows
      vcsNames_def)

lemma set_baseline:
  "set (m_enabledVcsPlugins (ServicesSettingsPage conf)) = set (enabledPlugins conf)"
  by (simp add: ServicesSettingsPage_def)

text \<open>
  Claim C4, as the code has it. \<^verbatim>\<open>loadVersionControlSystems\<close> puts in front of the
  rows it finds one row for every plugin of the first source, and one for every plugin
  of the second source whose name the first source does not have; a name that occurs
  twice within one source gets a row each time. Each row has the name as its label and
  the reserved prefix followed by the name as its key. The check state is membership of
  the name in the enabled-plugins setting as read at load time; that is membership in
  the snapshot of a page constructed from the same setting.
\<close>

theorem loadVersionControlSystems_rows:
  "m_serviceModel (loadVersionControlSystems reg conf p) =
     rev (map (vcsRow (enabledPlugins conf)) (vcsNames reg)) @ m_serviceModel p
   \<and> map (vcsRow (enabledPlugins conf)) (vcsNames reg) =
       map (vcsRow (m_enabledVcsPlugins (ServicesSettingsPage conf))) (vcsNames reg)"
  by (simp add: loadVersionControlSystems_model vcsRow_def set_baseline)

text \<open>In the sample installation both sources know Git: it gets one row, checked.\<close>

theorem loadVersionControlSystems_rows_witness:
  "m_serviceModel
     (loadVersionControlSystems sampleRegistry sampleConfig (ServicesSettingsPage sampleConfig)) =
     [\<lparr>decorationRole = ''code-class'', displayRole = ''Git'',
       desktopEntryNameRole = ''_version_control_Git'', checkStateRole = True\<rparr>]"
proof -
  have rows: "rev (map (vcsRow (enabledPlugins sampleConfig)) (vcsNames sampleRegistry))
        @ m_serviceModel (ServicesSettingsPage sampleConfig) =
     [\<lparr>decorationRole = ''code-class'', displayRole = ''Git'',
       desktopEntryNameRole = ''_version_control_Git'', checkStateRole = True\<rparr>]"
    by code_simp
  show ?thesis
    using loadVersionControlSystems_rows
      [of sampleRegistry sampleConfig "ServicesSettingsPage sampleConfig"]
    unfolding rows by blast
qed

text \<open>Two plugins of one name in the first source: the name is not deduplicated, both get
  a row.\<close>

theorem loadVersionControlSystems_same_name_twice:
  "map displayRole
     (m_serviceModel
        (loadVersionControlSystems sameNameRegistry sampleConfig (ServicesSettingsPage sampleConfig))) =
     [''Git'', ''Git'']"
  by code_simp

section \<open>First display\<close>

lemma vcs_key_not_sentinel:
  "VersionControlServicePrefix @ n \<noteq> DeleteService"
  "VersionControlServicePrefix @ n \<noteq> CopyToMoveToService"
  by (simp_all add: VersionControlServicePrefix_def DeleteService_def CopyToMoveToService_def)

lemma vcs_keys:
  "map desktopEntryNameRole (map (vcsRow enabled) ns) = map ((@) VersionControlServicePrefix) ns"
  by (simp add: vcsRow_def)

lemma distinct_vcsNames:
  "distinct (map meta_name (vcsPlugins reg)) \<Longrightarrow>
   distinct (map service_name (versionControlServices reg)) \<Longrightarrow> distinct (vcsNames reg)"
  by (auto simp: vcsNames_def)

lemma showEvent_model:
  "\<not> m_initialized p \<Longrightarrow>
   m_serviceModel (showEvent reg conf False p) =
     addRow ''edit-copy'' '''Copy To' and 'Move To' commands'' CopyToMoveToService
       (showCopyMoveMenu conf)
       (addRow ''edit-delete'' ''Delete'' DeleteService
          (case showDeleteCommand conf of None \<Rightarrow> ShowDeleteDefault | Some b \<Rightarrow> b)
          (rev (map (vcsRow (enabledPlugins conf)) (vcsNames reg))
           @ mergeFirstSeen (m_serviceModel p) (genericCandidates reg conf)))"
  by (simp add: showEvent_def Let_def loadVersionControlSystems_model loadServices_merge)

text \<open>
  Claim C3, as the code has it. After the first display of a freshly constructed page the
  keys of the rows are pairwise different, provided that no name occurs twice within
  the first version-control source, none occurs twice within the second, and no row
  offered by the generic sources has a reserved key (one of the two sentinels, or a key
  that starts with the version-control prefix). The version-control loader compares
  names across its two sources only, and the sentinel rows are added without a look at
  the collection.
\<close>

theorem showEvent_keys_distinct:
  assumes vcs1: "distinct (map meta_name (vcsPlugins reg))"
    and vcs2: "distinct (map service_name (versionControlServices reg))"
    and gen: "\<forall>c \<in> set (genericCandidates reg conf). \<not> reservedKey (desktopEntryNameRole c)"
  shows "distinct (map desktopEntryNameRole
           (m_serviceModel (showEvent reg conf False (ServicesSettingsPage conf0))))"
proof -
  let ?gen = "mergeFirstSeen [] (genericCandidates reg conf)"
  let ?vcs = "map (vcsRow (enabledPlugins conf)) (vcsNames reg)"
  have rows: "m_serviceModel (showEvent reg conf False (ServicesSettingsPage conf0)) =
      addRow ''edit-copy'' '''Copy To' and 'Move To' commands'' CopyToMoveToService
       (showCopyMoveMenu conf)
       (addRow ''edit-delete'' ''Delete'' DeleteService
          (case showDeleteCommand conf of None \<Rightarrow> ShowDeleteDefault | Some b \<Rightarrow> b)
          (rev ?vcs @ ?gen))"
    using showEvent_model [of "ServicesSettingsPage conf0" reg conf]
    by (simp add: ServicesSettingsPage_def)
  have gen_keys:
    "desktopEntryNameRole ` set ?gen = desktopEntryNameRole ` set (genericCandidates reg conf)"
    by (simp add: mergeFirstSeen_keys)
  have gen_unreserved: "\<not> reservedKey k" if "k \<in> desktopEntryNameRole ` set ?gen" for k
    using that gen unfolding gen_keys by auto
  have gen_distinct: "distinct (map desktopEntryNameRole ?gen)"
    by (rule mergeFirstSeen_distinct) simp
  have vcs_distinct: "distinct (map desktopEntryNameRole ?vcs)"
    unfolding vcs_keys using distinct_vcsNames [OF vcs1 vcs2]
    by (simp add: distinct_map inj_on_def)
  have vcs_reserved: "reservedKey k" if "k \<in> desktopEntryNameRole ` set ?vcs" for k
    using that by (auto simp: vcsRow_def reservedKey_def)
  have vcs_no_sentinel: "k \<noteq> DeleteService \<and> k \<noteq> CopyToMoveToService"
    if "k \<in> desktopEntryNameRole ` set ?vcs" for k
    using that vcs_key_not_sentinel by (auto simp: vcsRow_def)
  have sentinel_reserved: "reservedKey DeleteService" "reservedKey CopyToMoveToService"
    by (simp_all add: reservedKey_def)
  have disjoint: "desktopEntryNameRole ` set ?vcs \<inter> desktopEntryNameRole ` set ?gen = {}"
    using vcs_reserved gen_unreserved by blast
  have del_new:
    "DeleteService \<notin> desktopEntryNameRole ` set ?vcs \<union> desktopEntryNameRole ` set ?gen"
    using vcs_no_sentinel gen_unreserved sentinel_reserved by blast
  have copy_new:
    "CopyToMoveToService \<notin> desktopEntryNameRole ` set ?vcs \<union> desktopEntryNameRole ` set ?gen"
    using vcs_no_sentinel gen_unreserved sentinel_reserved by blast
  have sentinels: "CopyToMoveToService \<noteq> DeleteService"
    by (simp add: CopyToMoveToService_def DeleteService_def)
  have "distinct (map desktopEntryNameRole (rev ?vcs @ ?gen))"
    using vcs_distinct gen_distinct disjoint by (simp add: rev_map [symmetric] del: map_map)
  then show ?thesis
    unfolding rows addRow_def using del_new copy_new sentinels by (simp del: map_map)
qed

theorem showEvent_keys_distinct_witness:
  "distinct (map desktopEntryNameRole
     (m_serviceModel (showEvent sampleRegistry sampleConfig False (ServicesSettingsPage sampleConfig))))"
proof -
  have vcs1: "distinct (map meta_name (vcsPlugins sampleRegistry))"
    by code_simp
  have vcs2: "distinct (map service_name (versionControlServices sampleRegistry))"
    by code_simp
  have gen: "\<forall>c \<in> set (genericCandidates sampleRegistry sampleConfig).
               \<not> reservedKey (desktopEntryNameRole c)"
    by code_simp
  show ?thesis
    by (rule showEvent_keys_distinct [OF vcs1 vcs2 gen])
qed

text \<open>Two plugins of one name in the first version-control source: after the first display
  two rows have the key \<open>_version_control_Git\<close>.\<close>

theorem showEvent_duplicate_vcs_keys:
  "\<not> distinct (map desktopEntryNameRole
        (m_serviceModel
           (showEvent sameNameRegistry sampleConfig False (ServicesSettingsPage sampleConfig))))"
  by code_simp

lemma showEvent_sets_initialized: "m_initialized (showEvent reg conf False p)"
  by (simp add: showEvent_def Let_def)

text \<open>The page after a first non-spontaneous show event: the rows as
  \<open>showEvent_model\<close> gives them, the proxy sorted, the flag set, the search text and
  the snapshot as they were.\<close>

lemma showEvent_first:
  assumes "\<not> m_initialized p"
  shows "showEvent reg conf False p =
     p\<lparr>m_serviceModel :=
          addRow ''edit-copy'' '''Copy To' and 'Move To' commands'' CopyToMoveToService
            (showCopyMoveMenu conf)
            (addRow ''edit-delete'' ''Delete'' DeleteService
               (case showDeleteCommand conf of None \<Rightarrow> ShowDeleteDefault | Some b \<Rightarrow> b)
               (rev (map (vcsRow (enabledPlugins conf)) (vcsNames reg))
                @ mergeFirstSeen (m_serviceModel p) (genericCandidates reg conf))),
        sortModel_sorted := True, m_initialized := True\<rparr>"
proof (rule panel.equality)
  show "m_serviceModel (showEvent reg conf False p) =
        m_serviceModel
          (p\<lparr>m_serviceModel :=
               addRow ''edit-copy'' '''Copy To' and 'Move To' commands'' CopyToMoveToService
                 (showCopyMoveMenu conf)
                 (addRow ''edit-delete'' ''Delete'' DeleteService
                    (case showDeleteCommand conf of None \<Rightarrow> ShowDeleteDefault | Some b \<Rightarrow> b)
                    (rev (map (vcsRow (enabledPlugins conf)) (vcsNames reg))
                     @ mergeFirstSeen (m_serviceModel p) (genericCandidates reg conf))),
             sortModel_sorted := True, m_initialized := True\<rparr>)"
    using showEvent_model [OF assms] by simp
qed (simp_all add: showEvent_def Let_def loadServices_def loadVersionControlSystems_def assms
       split: prod.splits)

text \<open>
  Claim C6. A non-spontaneous show event on a page that is not initialized loads the
  rows (in front of those the model holds: the generic rows, then the version-control
  rows, then the delete row and the copy/move row), has the proxy sorted and sets the
  flag, leaving the search text and the snapshot as they are. Any further show event,
  whatever the registries and stores then hold, leaves the page as it is: its rows, its
  proxy state and its flag. So does any show event on an initialized page, and a
  spontaneous one on any page.
\<close>

theorem showEvent_idempotent:
  "showEvent reg' conf' spontaneous (showEvent reg conf False p) = showEvent reg conf False p
   \<and> m_initialized (showEvent reg conf False p)
   \<and> (\<not> m_initialized p \<longrightarrow>
        showEvent reg conf False p =
          p\<lparr>m_serviceModel :=
               addRow ''edit-copy'' '''Copy To' and 'Move To' commands'' CopyToMoveToService
                 (showCopyMoveMenu conf)
                 (addRow ''edit-delete'' ''Delete'' DeleteService
                    (case showDeleteCommand conf of None \<Rightarrow> ShowDeleteDefault | Some b \<Rightarrow> b)
                    (rev (map (vcsRow (enabledPlugins conf)) (vcsNames reg))
                     @ mergeFirstSeen (m_serviceModel p) (genericCandidates reg conf))),
             sortModel_sorted := True, m_initialized := True\<rparr>)
   \<and> (m_initialized p \<longrightarrow> showEvent reg conf spontaneous p = p)
   \<and> showEvent reg conf True p = p"
proof -
  have later: "showEvent r c s q = q" if "m_initialized q" for r c s q
    using that by (simp add: showEvent_def)
  have spont: "showEvent reg conf True p = p"
    by (simp add: showEvent_def)
  show ?thesis
    using later showEvent_sets_initialized showEvent_first spont by blast
qed

text \<open>The sample page: the first display loads its four rows, the second one, with other
  registries and stores, changes nothing.\<close>

theorem showEvent_idempotent_witness:
  "m_serviceModel samplePanel =
     [\<lparr>decorationRole = ''edit-copy'', displayRole = '''Copy To' and 'Move To' commands'',
       desktopEntryNameRole = ''_copy_to_move_to'', checkStateRole = True\<rparr>,
      \<lparr>decorationRole = ''edit-delete'', displayRole = ''Delete'',
       desktopEntryNameRole = ''_delete'', checkStateRole = False\<rparr>,
      \<lparr>decorationRole = ''code-class'', displayRole = ''Git'',
       desktopEntryNameRole = ''_version_control_Git'', checkStateRole = True\<rparr>,
      \<lparr>decorationRole = ''foo'', displayRole = ''Tools: Foo'',
       desktopEntryNameRole = ''svc.foo'', checkStateRole = True\<rparr>]
   \<and> sortModel_sorted samplePanel
   \<and> m_initialized samplePanel
   \<and> showEvent mixedCaseRegistry mixedCaseConfig False samplePanel = samplePanel"
proof -
  let ?p = "ServicesSettingsPage sampleConfig"
  note t = showEvent_idempotent
    [where p = ?p and reg = sampleRegistry and conf = sampleConfig
       and reg' = mixedCaseRegistry and conf' = mixedCaseConfig and spontaneous = False]
  have un: "\<not> m_initialized ?p"
    by (simp add: ServicesSettingsPage_def)
  have first: "samplePanel =
      ?p\<lparr>m_serviceModel :=
          addRow ''edit-copy'' '''Copy To' and 'Move To' commands'' CopyToMoveToService
            (showCopyMoveMenu sampleConfig)
            (addRow ''edit-delete'' ''Delete'' DeleteService
               (case showDeleteCommand sampleConfig of None \<Rightarrow> ShowDeleteDefault | Some b \<Rightarrow> b)
               (rev (map (vcsRow (enabledPlugins sampleConfig)) (vcsNames sampleRegistry))
                @ mergeFirstSeen (m_serviceModel ?p) (genericCandidates sampleRegistry sampleConfig))),
        sortModel_sorted := True, m_initialized := True\<rparr>"
    unfolding samplePanel_def using t un by blast
  have rows: "addRow ''edit-copy'' '''Copy To' and 'Move To' commands'' CopyToMoveToService
            (showCopyMoveMenu sampleConfig)
            (addRow ''edit-delete'' ''Delete'' DeleteService
               (case showDeleteCommand sampleConfig of None \<Rightarrow> ShowDeleteDefault | Some b \<Rightarrow> b)
               (rev (map (vcsRow (enabledPlugins sampleConfig)) (vcsNames sampleRegistry))
                @ mergeFirstSeen (m_serviceModel ?p) (genericCandidates sampleRegistry sampleConfig))) =
     [\<lparr>decorationRole = ''edit-copy'', displayRole = '''Copy To' and 'Move To' commands'',
       desktopEntryNameRole = ''_copy_to_move_to'', checkStateRole = True\<rparr>,
      \<lparr>decorationRole = ''edit-delete'', displayRole = ''Delete'',
       desktopEntryNameRole = ''_delete'', checkStateRole = False\<rparr>,
      \<lparr>decorationRole = ''code-class'', displayRole = ''Git'',
       desktopEntryNameRole = ''_version_control_Git'', checkStateRole = True\<rparr>,
      \<lparr>decorationRole = ''foo'', displayRole = ''Tools: Foo'',
       desktopEntryNameRole = ''svc.foo'', checkStateRole = True\<rparr>]"
    by code_simp
  have a: "m_serviceModel samplePanel = addRow ''edit-copy'' '''Copy To' and 'Move To' commands'' CopyToMoveToService
            (showCopyMoveMenu sampleConfig)
            (addRow ''edit-delete'' ''Delete'' DeleteService
               (case showDeleteCommand sampleConfig of None \<Rightarrow> ShowDeleteDefault | Some b \<Rightarrow> b)
               (rev (map (vcsRow (enabledPlugins sampleConfig)) (vcsNames sampleRegistry))
                @ mergeFirstSeen (m_serviceModel ?p) (genericCandidates sampleRegistry sampleConfig)))"
    by (subst first) simp
  have b: "sortModel_sorted samplePanel" by (subst first) simp
  have c: "m_initialized samplePanel" by (subst first) simp
  have d: "showEvent mixedCaseRegistry mixedCaseConfig False samplePanel = samplePanel"
    unfolding samplePanel_def using t by blast
  show ?thesis
    using a b c d unfolding rows by blast
qed

text \<open>
  Claim C9. With nothing in any of the five enumerations, the first display of a freshly
  constructed page gives exactly two rows: the copy/move row, checked as the general
  setting says, and the delete row, checked as the stored entry says and unchecked when
  the entry is absent.
\<close>

theorem showEvent_empty_registries:
  "m_serviceModel
     (showEvent \<lparr>konqPopupMenuPlugins = [], fileItemActionServices = [],
                 kfileitemactionPlugins = [], vcsPlugins = [], versionControlServices = []\<rparr>
        conf False (ServicesSettingsPage conf0)) =
   [\<lparr>decorationRole = ''edit-copy'', displayRole = '''Copy To' and 'Move To' commands'',
     desktopEntryNameRole = ''_copy_to_move_to'', checkStateRole = showCopyMoveMenu conf\<rparr>,
    \<lparr>decorationRole = ''edit-delete'', displayRole = ''Delete'',
     desktopEntryNameRole = ''_delete'',
     checkStateRole = (case showDeleteCommand conf of None \<Rightarrow> False | Some b \<Rightarrow> b)\<rparr>]"
  by (simp add: showEvent_def ServicesSettingsPage_def loadServices_def
      loadVersionControlSystems_def findFileItemActionPlugins_def addRow_def Let_def
      DeleteService_def CopyToMoveToService_def ShowDeleteDefault_def split: option.split)

theorem showEvent_empty_registries_witness:
  "m_serviceModel
     (showEvent \<lparr>konqPopupMenuPlugins = [], fileItemActionServices = [],
                 kfileitemactionPlugins = [], vcsPlugins = [], versionControlServices = []\<rparr>
        sampleConfig False (ServicesSettingsPage sampleConfig)) =
   [\<lparr>decorationRole = ''edit-copy'', displayRole = '''Copy To' and 'Move To' commands'',
     desktopEntryNameRole = ''_copy_to_move_to'', checkStateRole = True\<rparr>,
    \<lparr>decorationRole = ''edit-delete'', displayRole = ''Delete'',
     desktopEntryNameRole = ''_delete'', checkStateRole = False\<rparr>]"
  using showEvent_empty_registries [of sampleConfig sampleConfig]
  by (simp add: sampleConfig_def)

section \<open>The rows the list view shows\<close>

lemma mapToSource_set:
  "set (mapToSource collate p) =
     {i. i < length (m_serviceModel p)
         \<and> filterAcceptsRow (sortModel_filter p) (m_serviceModel p ! i)}"
  by (auto simp: mapToSource_def Let_def)

lemma mapToSource_distinct: "distinct (mapToSource collate p)"
  by (simp add: mapToSource_def Let_def)

lemma proxyRows_set:
  "set (proxyRows collate p) =
     {r \<in> set (m_serviceModel p). filterAcceptsRow (sortModel_filter p) r}"
  unfolding proxyRows_def set_map mapToSource_set
  by (auto simp: in_set_conv_nth)

lemma filterAcceptsRow_empty: "filterAcceptsRow [] r"
  by (simp add: filterAcceptsRow_def)

lemma proxyRows_set_no_filter:
  "sortModel_filter p = [] \<Longrightarrow> set (proxyRows collate p) = set (m_serviceModel p)"
  by (simp add: proxyRows_set filterAcceptsRow_empty)

section \<open>Apply\<close>

lemma applyRows_snoc: "applyRows (rows @ [r]) s = applyRow r (applyRows rows s)"
  by (induction rows arbitrary: s) simp_all

lemma applyRows_enabled:
  "snd (applyRows rows (conf, en)) = en @ enabledVcsLabels rows"
proof (induction rows rule: rev_induct)
  case Nil
  show ?case by (simp add: enabledVcsLabels_def)
next
  case (snoc r rows)
  then show ?case
    by (cases "applyRows rows (conf, en)")
       (simp add: applyRows_snoc applyRow_def enabledVcsLabels_def Let_def)
qed

lemma applyRows_enabledPlugins:
  "enabledPlugins (fst (applyRows rows (conf, en))) = enabledPlugins conf"
proof (induction rows rule: rev_induct)
  case Nil
  show ?case by simp
next
  case (snoc r rows)
  then show ?case
    by (cases "applyRows rows (conf, en)") (simp add: applyRows_snoc applyRow_def Let_def)
qed

text \<open>The show group after the loop: every shown row with a key that is not reserved has
  written its check state under its key, a later row overwriting an earlier one.\<close>

lemma applyRows_showGroup:
  "showGroup (fst (applyRows rows (conf, en))) =
     showGroup conf ++
     map_of (rev (map (\<lambda>r. (desktopEntryNameRole r, checkStateRole r))
                    (filter (\<lambda>r. \<not> reservedKey (desktopEntryNameRole r)) rows)))"
proof (induction rows rule: rev_induct)
  case Nil
  show ?case by simp
next
  case (snoc r rows)
  then show ?case
    by (cases "applyRows rows (conf, en)")
       (simp add: applyRows_snoc applyRow_def Let_def reservedKey_def map_add_upd)
qed

lemma applyRows_showDeleteCommand:
  "showDeleteCommand (fst (applyRows rows (conf, en))) =
     (case filter (\<lambda>r. desktopEntryNameRole r = DeleteService) rows of
        [] \<Rightarrow> showDeleteCommand conf
      | r # rs \<Rightarrow> Some (checkStateRole (last (r # rs))))"
proof (induction rows rule: rev_induct)
  case Nil
  show ?case by simp
next
  case (snoc r rows)
  have not_vcs: "\<not> prefix VersionControlServicePrefix DeleteService"
    by (simp add: VersionControlServicePrefix_def DeleteService_def)
  have ne: "CopyToMoveToService \<noteq> DeleteService"
    by (simp add: CopyToMoveToService_def DeleteService_def)
  from snoc show ?case
    by (cases "applyRows rows (conf, en)")
       (auto simp: applyRows_snoc applyRow_def Let_def not_vcs ne split: list.splits)
qed

lemma applyRows_showCopyMoveMenu:
  "showCopyMoveMenu (fst (applyRows rows (conf, en))) =
     (case filter (\<lambda>r. desktopEntryNameRole r = CopyToMoveToService) rows of
        [] \<Rightarrow> showCopyMoveMenu conf
      | r # rs \<Rightarrow> checkStateRole (last (r # rs)))"
proof (induction rows rule: rev_induct)
  case Nil
  show ?case by simp
next
  case (snoc r rows)
  have not_vcs: "\<not> prefix VersionControlServicePrefix CopyToMoveToService"
    by (simp add: VersionControlServicePrefix_def CopyToMoveToService_def)
  have ne: "CopyToMoveToService \<noteq> DeleteService"
    by (simp add: CopyToMoveToService_def DeleteService_def)
  from snoc show ?case
    by (cases "applyRows rows (conf, en)")
       (auto simp: applyRows_snoc applyRow_def Let_def not_vcs ne split: list.splits)
qed

lemma applySettings_uninitialized:
  "\<not> m_initialized p \<Longrightarrow> applySettings collate p conf = (p, conf, [])"
  by (simp add: applySettings_def)

text \<open>What the code compares: the snapshot, sorted by code units at construction, with the
  labels of the checked version-control rows in the order the list view shows them.\<close>

lemma applySettings_notice:
  assumes "m_initialized p"
  shows "snd (snd (applySettings collate p conf)) \<noteq> [] \<longleftrightarrow>
           m_enabledVcsPlugins p \<noteq> enabledVcsLabels (proxyRows collate p)"
    and "enabledPlugins (fst (snd (applySettings collate p conf))) =
           (if m_enabledVcsPlugins p \<noteq> enabledVcsLabels (proxyRows collate p)
            then enabledVcsLabels (proxyRows collate p) else enabledPlugins conf)"
proof -
  obtain conf' en where run: "applyRows (proxyRows collate p) (conf, []) = (conf', en)"
    by (cases "applyRows (proxyRows collate p) (conf, [])")
  have en: "en = enabledVcsLabels (proxyRows collate p)"
    using applyRows_enabled [of "proxyRows collate p" conf "[]"] run by simp
  have keep: "enabledPlugins conf' = enabledPlugins conf"
    using applyRows_enabledPlugins [of "proxyRows collate p" conf "[]"] run by simp
  show "snd (snd (applySettings collate p conf)) \<noteq> [] \<longleftrightarrow>
           m_enabledVcsPlugins p \<noteq> enabledVcsLabels (proxyRows collate p)"
    using assms run en by (simp add: applySettings_def)
  show "enabledPlugins (fst (snd (applySettings collate p conf))) =
           (if m_enabledVcsPlugins p \<noteq> enabledVcsLabels (proxyRows collate p)
            then enabledVcsLabels (proxyRows collate p) else enabledPlugins conf)"
    using assms run en keep by (simp add: applySettings_def)
qed

text \<open>The three per-row stores after \<^verbatim>\<open>applySettings\<close> on an initialized page, in
  terms of the rows the list view shows.\<close>

lemma applySettings_stores:
  assumes "m_initialized p"
  shows "showGroup (fst (snd (applySettings collate p conf))) =
           showGroup conf ++
           map_of (rev (map (\<lambda>r. (desktopEntryNameRole r, checkStateRole r))
                          (filter (\<lambda>r. \<not> reservedKey (desktopEntryNameRole r))
                             (proxyRows collate p))))"
    and "showDeleteCommand (fst (snd (applySettings collate p conf))) =
           (case filter (\<lambda>r. desktopEntryNameRole r = DeleteService) (proxyRows collate p) of
              [] \<Rightarrow> showDeleteCommand conf
            | r # rs \<Rightarrow> Some (checkStateRole (last (r # rs))))"
    and "showCopyMoveMenu (fst (snd (applySettings collate p conf))) =
           (case filter (\<lambda>r. desktopEntryNameRole r = CopyToMoveToService) (proxyRows collate p) of
              [] \<Rightarrow> showCopyMoveMenu conf
            | r # rs \<Rightarrow> checkStateRole (last (r # rs)))"
proof -
  obtain conf' en where run: "applyRows (proxyRows collate p) (conf, []) = (conf', en)"
    by (cases "applyRows (proxyRows collate p) (conf, [])")
  have conf': "conf' = fst (applyRows (proxyRows collate p) (conf, []))"
    using run by simp
  have after: "showGroup (fst (snd (applySettings collate p conf))) = showGroup conf'"
    "showDeleteCommand (fst (snd (applySettings collate p conf))) = showDeleteCommand conf'"
    "showCopyMoveMenu (fst (snd (applySettings collate p conf))) = showCopyMoveMenu conf'"
    using assms run by (simp_all add: applySettings_def)
  show "showGroup (fst (snd (applySettings collate p conf))) =
           showGroup conf ++
           map_of (rev (map (\<lambda>r. (desktopEntryNameRole r, checkStateRole r))
                          (filter (\<lambda>r. \<not> reservedKey (desktopEntryNameRole r))
                             (proxyRows collate p))))"
    unfolding after conf' by (rule applyRows_showGroup)
  show "showDeleteCommand (fst (snd (applySettings collate p conf))) =
           (case filter (\<lambda>r. desktopEntryNameRole r = DeleteService) (proxyRows collate p) of
              [] \<Rightarrow> showDeleteCommand conf
            | r # rs \<Rightarrow> Some (checkStateRole (last (r # rs))))"
    unfolding after conf' by (rule applyRows_showDeleteCommand)
  show "showCopyMoveMenu (fst (snd (applySettings collate p conf))) =
           (case filter (\<lambda>r. desktopEntryNameRole r = CopyToMoveToService) (proxyRows collate p) of
              [] \<Rightarrow> showCopyMoveMenu conf
            | r # rs \<Rightarrow> checkStateRole (last (r # rs)))"
    unfolding after conf' by (rule applyRows_showCopyMoveMenu)
qed

text \<open>When the list view collates by code units, the collected labels are sorted the way
  the snapshot is, and the comparison is one of sorted sequences.\<close>

lemma enabledVcsLabels_sorted:
  assumes "sortModel_sorted p"
  shows "sorted (enabledVcsLabels (proxyRows id p))"
proof -
  let ?rows = "m_serviceModel p"
  let ?acc = "filter (\<lambda>i. filterAcceptsRow (sortModel_filter p) (?rows ! i)) [0..<length ?rows]"
  have "map displayRole (proxyRows id p) =
          map (\<lambda>i. displayRole (?rows ! i)) (sort_key (\<lambda>i. displayRole (?rows ! i)) ?acc)"
    using assms by (simp add: proxyRows_def mapToSource_def Let_def)
  then have "sorted (map displayRole (proxyRows id p))"
    by (simp only: sorted_sort_key)
  then show ?thesis
    unfolding enabledVcsLabels_def by (rule sorted_filter)
qed

lemma applySettings_notice_code_units:
  assumes "m_initialized p" and "sortModel_sorted p"
  shows "snd (snd (applySettings id p conf)) \<noteq> [] \<longleftrightarrow>
           m_enabledVcsPlugins p \<noteq> sort (enabledVcsLabels (proxyRows id p))"
  using applySettings_notice(1) [OF assms(1), of id conf] enabledVcsLabels_sorted [OF assms(2)]
  by (simp add: sorted_sort_id)

text \<open>
  Claim C10. \<^verbatim>\<open>applySettings\<close> returns the page it was given: the rows with
  their keys, labels, icons and check states, the proxy state, the flag and the snapshot
  of the enabled version-control plugins are the same, also when a new list of enabled
  plugins is stored.
\<close>

theorem applySettings_keeps_panel:
  "fst (applySettings collate p conf) = p"
  by (simp add: applySettings_def split: prod.splits)

text \<open>On the page with the plugins Git and bzr, under the caseless collation, a new list is
  stored and the snapshot stays.\<close>

theorem applySettings_keeps_panel_witness:
  "m_enabledVcsPlugins (fst (applySettings caselessKey mixedCasePanel mixedCaseConfig)) =
     [''Git'', ''bzr'']
   \<and> enabledPlugins (fst (snd (applySettings caselessKey mixedCasePanel mixedCaseConfig))) =
     [''bzr'', ''Git'']"
proof -
  have "m_enabledVcsPlugins mixedCasePanel = [''Git'', ''bzr'']
      \<and> enabledPlugins (fst (snd (applySettings caselessKey mixedCasePanel mixedCaseConfig))) =
        [''bzr'', ''Git'']"
    by code_simp
  then show ?thesis
    unfolding applySettings_keeps_panel .
qed

text \<open>
  Claim C1, at an input where the code departs from it. \<^verbatim>\<open>applySettings\<close> walks
  the rows of \<^verbatim>\<open>m_listView->model()\<close>, the filtering proxy, not the rows of the
  service model. The sample page holds four rows and is initialized. With the search
  text \<open>git\<close> the proxy shows the Git row only: the generic row \<open>svc.foo\<close> writes nothing
  to the show group and the delete row writes nothing to \<open>ShowDeleteCommand\<close>, while
  with no search text both are written. With the search text \<open>foo\<close> the checked Git
  row is not shown, its label is not collected, and the empty list is stored as the
  enabled plugins.
\<close>

theorem applySettings_skips_filtered_rows:
  "map desktopEntryNameRole (m_serviceModel (textChanged ''git'' samplePanel)) =
     [''_copy_to_move_to'', ''_delete'', ''_version_control_Git'', ''svc.foo'']
   \<and> map desktopEntryNameRole (proxyRows id (textChanged ''git'' samplePanel)) =
     [''_version_control_Git'']
   \<and> m_initialized (textChanged ''git'' samplePanel)
   \<and> showGroup (fst (snd (applySettings id (textChanged ''git'' samplePanel) sampleConfig)))
       ''svc.foo'' = None
   \<and> showDeleteCommand (fst (snd (applySettings id (textChanged ''git'' samplePanel) sampleConfig)))
       = None
   \<and> showGroup (fst (snd (applySettings id samplePanel sampleConfig))) ''svc.foo'' = Some True
   \<and> showDeleteCommand (fst (snd (applySettings id samplePanel sampleConfig))) = Some False
   \<and> enabledPlugins (fst (snd (applySettings id (textChanged ''foo'' samplePanel) sampleConfig)))
       = []"
  by code_simp

text \<open>
  Claim C2, at an input where the code departs from it. The snapshot is sorted by code
  units, the collected labels come in the order of the list view, which sorts by the
  locale's collation, and the two lists are compared element by element. With the plugins
  Git and bzr both enabled and checked, and a collation that ignores case, the snapshot
  is Git, bzr and the collected list is bzr, Git: as sorted sequences they are equal,
  yet the notice is requested and the list is stored. Under the collation by code units
  no notice is requested.
\<close>

theorem applySettings_notice_on_collation_mismatch:
  "m_enabledVcsPlugins mixedCasePanel = [''Git'', ''bzr'']
   \<and> enabledVcsLabels (proxyRows caselessKey mixedCasePanel) = [''bzr'', ''Git'']
   \<and> sort (enabledVcsLabels (proxyRows caselessKey mixedCasePanel)) =
       m_enabledVcsPlugins mixedCasePanel
   \<and> snd (snd (applySettings caselessKey mixedCasePanel mixedCaseConfig)) =
       [(''Dolphin must be restarted to apply the updated version control systems settings.'',
         ''ShowVcsRestartInformation'')]
   \<and> enabledPlugins (fst (snd (applySettings caselessKey mixedCasePanel mixedCaseConfig))) =
       [''bzr'', ''Git'']
   \<and> snd (snd (applySettings id mixedCasePanel mixedCaseConfig)) = []"
  by code_simp

section \<open>Restore defaults\<close>

lemma restoreRows_length: "length (restoreRows idx rows) = length rows"
  by (induction idx arbitrary: rows) (simp_all add: Let_def)

lemma restoreRows_nth:
  "i < length rows \<Longrightarrow>
   restoreRows idx rows ! i =
     (if i \<in> set idx
      then (rows ! i)\<lparr>checkStateRole := \<not> reservedKey (desktopEntryNameRole (rows ! i))\<rparr>
      else rows ! i)"
proof (induction idx arbitrary: rows)
  case Nil
  show ?case by simp
next
  case (Cons j idx)
  let ?r = "(rows ! j)\<lparr>checkStateRole := \<not> reservedKey (desktopEntryNameRole (rows ! j))\<rparr>"
  have step: "restoreRows (j # idx) rows = restoreRows idx (rows[j := ?r])"
    by (simp add: Let_def reservedKey_def)
  have len: "i < length (rows[j := ?r])"
    using Cons.prems by simp
  show ?case
    unfolding step Cons.IH [OF len]
    using Cons.prems by (cases "i = j") simp_all
qed

text \<open>What the code does: a row is reset when the search text lets the proxy show it, and
  kept as it is otherwise.\<close>

lemma restoreDefaults_nth:
  "i < length (m_serviceModel p) \<Longrightarrow>
   m_serviceModel (restoreDefaults collate p) ! i =
     (if filterAcceptsRow (sortModel_filter p) (m_serviceModel p ! i)
      then (m_serviceModel p ! i)
             \<lparr>checkStateRole := \<not> reservedKey (desktopEntryNameRole (m_serviceModel p ! i))\<rparr>
      else m_serviceModel p ! i)"
  by (simp add: restoreDefaults_def restoreRows_nth mapToSource_set)

lemma restoreDefaults_length:
  "length (m_serviceModel (restoreDefaults collate p)) = length (m_serviceModel p)"
  by (simp add: restoreDefaults_def restoreRows_length)

text \<open>
  Claim C5, at an input where the code departs from it. \<^verbatim>\<open>restoreDefaults\<close> walks
  the rows of the filtering proxy as well. On the sample page with the search text \<open>foo\<close>
  the version-control row Git and the copy/move row are not shown and stay checked;
  with no search text both are unchecked. No store is among the arguments or results.
\<close>

theorem restoreDefaults_skips_filtered_rows:
  "map (\<lambda>r. (desktopEntryNameRole r, checkStateRole r))
     (m_serviceModel (restoreDefaults id (textChanged ''foo'' samplePanel))) =
     [(''_copy_to_move_to'', True), (''_delete'', False), (''_version_control_Git'', True),
      (''svc.foo'', True)]
   \<and> map (\<lambda>r. (desktopEntryNameRole r, checkStateRole r))
     (m_serviceModel (restoreDefaults id samplePanel)) =
     [(''_copy_to_move_to'', False), (''_delete'', False), (''_version_control_Git'', False),
      (''svc.foo'', True)]"
  by code_simp

section \<open>Reload after a download\<close>

lemma dialogFinished_model:
  "changedEntries \<noteq> [] \<Longrightarrow>
   m_serviceModel (dialogFinished reg conf changedEntries p) =
     mergeFirstSeen [] (genericCandidates reg conf)"
  by (simp add: dialogFinished_def loadServices_merge)

lemma dialogFinished_initialized:
  "m_initialized (dialogFinished reg conf changedEntries p) = m_initialized p"
  by (simp add: dialogFinished_def loadServices_def Let_def)

text \<open>
  Claim C8, at an input where the code departs from it. The handler clears the service
  model and calls \<^verbatim>\<open>loadServices\<close> only. The sample page, once displayed, holds the
  copy/move row, the delete row, the Git row and one generic row; after a download that
  changed an entry it holds the generic row alone, the flag still set. Applying then
  stores the empty list as the enabled version-control plugins.
\<close>

theorem dialogFinished_drops_rows:
  "map desktopEntryNameRole (m_serviceModel samplePanel) =
     [''_copy_to_move_to'', ''_delete'', ''_version_control_Git'', ''svc.foo'']
   \<and> map desktopEntryNameRole
         (m_serviceModel (dialogFinished sampleRegistry sampleConfig [''entry''] samplePanel)) =
     [''svc.foo'']
   \<and> m_initialized (dialogFinished sampleRegistry sampleConfig [''entry''] samplePanel)
   \<and> enabledPlugins (fst (snd (applySettings id
         (dialogFinished sampleRegistry sampleConfig [''entry''] samplePanel) sampleConfig))) = []"
  by code_simp

end
